theory Spec2Isabelle
  imports Main
begin

section \<open>Strings of the Go standard library\<close>

text \<open>
  A Go string is a sequence of bytes, here a \<^typ>\<open>string\<close>. \<^verbatim>\<open>strings.HasSuffix\<close> compares
  the last bytes of its first argument with the suffix. \<^verbatim>\<open>strings.TrimRight\<close> removes every
  trailing byte that occurs in the cutset; the cutset of the provider is the single ASCII
  byte \<^verbatim>\<open>/\<close>, for which Go trims byte by byte.
\<close>

definition HasSuffix :: "string \<Rightarrow> string \<Rightarrow> bool" where
  "HasSuffix s suffix \<longleftrightarrow>
     length suffix \<le> length s \<and> drop (length s - length suffix) s = suffix"

definition TrimRight :: "string \<Rightarrow> string \<Rightarrow> string" where
  "TrimRight s cutset = rev (dropWhile (\<lambda>c. c \<in> set cutset) (rev s))"

section \<open>Values of the plugin framework\<close>

text \<open>
  An attribute value of the framework (\<^verbatim>\<open>types.String\<close>, \<^verbatim>\<open>types.Bool\<close>) is null, unknown
  or known. \<^verbatim>\<open>ValueString\<close> and \<^verbatim>\<open>ValueBool\<close> return the zero value of the Go type when
  the attribute is null or unknown.
\<close>

datatype 'a tfvalue = Null | Unknown | Known 'a

fun IsNull :: "'a tfvalue \<Rightarrow> bool" where
  "IsNull Null = True"
| "IsNull Unknown = False"
| "IsNull (Known v) = False"

fun IsUnknown :: "'a tfvalue \<Rightarrow> bool" where
  "IsUnknown Null = False"
| "IsUnknown Unknown = True"
| "IsUnknown (Known v) = False"

fun ValueString :: "string tfvalue \<Rightarrow> string" where
  "ValueString Null = []"
| "ValueString Unknown = []"
| "ValueString (Known v) = v"

fun ValueBool :: "bool tfvalue \<Rightarrow> bool" where
  "ValueBool Null = False"
| "ValueBool Unknown = False"
| "ValueBool (Known v) = v"

text \<open>
  Modelled from the spec: the generated package \<^verbatim>\<open>provider_netbox\<close> that declares
  \<^verbatim>\<open>NetboxModel\<close> is not among the sources. The record has the three fields that
  \<^verbatim>\<open>Configure\<close> reads, which are the three fields of the spec's RawConfig.
\<close>

record NetboxModel =
  ServerUrl :: "string tfvalue"
  ApiToken :: "string tfvalue"
  StripTrailingSlashesFromUrl :: "bool tfvalue"

text \<open>
  The process environment is a finite table; \<^verbatim>\<open>os.Getenv\<close> returns the empty string for a
  variable that is not set.
\<close>

type_synonym environ = "string \<rightharpoonup> string"

definition Getenv :: "environ \<Rightarrow> string \<Rightarrow> string" where
  "Getenv env key = (case env key of None \<Rightarrow> [] | Some v \<Rightarrow> v)"

section \<open>Diagnostics\<close>

datatype Severity = SeverityError | SeverityWarning

record Diagnostic =
  severity :: Severity
  attribute :: "string option"
  summary :: string
  detail :: string

text \<open>
  \<^verbatim>\<open>Diagnostics.Append\<close> skips a diagnostic that the collection already contains, and
  \<^verbatim>\<open>AddAttributeError\<close> and \<^verbatim>\<open>AddAttributeWarning\<close> append through it.
\<close>

definition Contains :: "Diagnostic list \<Rightarrow> Diagnostic \<Rightarrow> bool" where
  "Contains diags d \<longleftrightarrow> d \<in> set diags"

definition Append1 :: "Diagnostic list \<Rightarrow> Diagnostic \<Rightarrow> Diagnostic list" where
  "Append1 diags d = (if Contains diags d then diags else diags @ [d])"

definition Append :: "Diagnostic list \<Rightarrow> Diagnostic list \<Rightarrow> Diagnostic list" where
  "Append diags new = foldl Append1 diags new"

definition HasError :: "Diagnostic list \<Rightarrow> bool" where
  "HasError diags \<longleftrightarrow> list_ex (\<lambda>d. severity d = SeverityError) diags"

definition AddAttributeError ::
  "string \<Rightarrow> string \<Rightarrow> string \<Rightarrow> Diagnostic list \<Rightarrow> Diagnostic list" where
  "AddAttributeError p s d diags =
     Append1 diags \<lparr>severity = SeverityError, attribute = Some p, summary = s, detail = d\<rparr>"

definition AddAttributeWarning ::
  "string \<Rightarrow> string \<Rightarrow> string \<Rightarrow> Diagnostic list \<Rightarrow> Diagnostic list" where
  "AddAttributeWarning p s d diags =
     Append1 diags \<lparr>severity = SeverityWarning, attribute = Some p, summary = s, detail = d\<rparr>"

subsection \<open>The diagnostics of Configure\<close>

definition unknown_server_url_detail :: string where
  "unknown_server_url_detail =
     ''The provider cannot create the NetBox API client as there is an unknown configuration value for the NetBox Server URL. '' @
     ''Either target apply the source of the value first, set the value statically in the configuration, or use the NETBOX_SERVER_URL environment variable.''"

definition unknown_api_token_detail :: string where
  "unknown_api_token_detail =
     ''The provider cannot create the NetBox API client as there is an unknown configuration value for the NetBox API Token. '' @
     ''Either target apply the source of the value first, set the value statically in the configuration, or use the NETBOX_API_TOKEN environment variable.''"

definition missing_server_url_detail :: string where
  "missing_server_url_detail =
     ''The provider cannot create the NetBox API client as there is a missing configuration value for the NetBox Server URL. '' @
     ''Set the host value in the configuration or use the NETBOX_SERVER_URL environment variable. '' @
     ''If either is already set, ensure the value is not empty.''"

definition missing_api_token_detail :: string where
  "missing_api_token_detail =
     ''The provider cannot create the NetBox API client as there is a missing configuration value for the NetBox API Token. '' @
     ''Set the host value in the configuration or use the NETBOX_API_TOKEN environment variable. '' @
     ''If either is already set, ensure the value is not empty.''"

definition stripped_detail :: string where
  "stripped_detail =
     ''Trailing slashes in the `server_url` parameter lead to problems in most setups, so all trailing slashes were stripped. Use the `strip_trailing_slashes_from_url` parameter to disable this feature or remove all trailing slashes in the `server_url` to disable this warning.''"

definition unknown_server_url :: Diagnostic where
  "unknown_server_url =
     \<lparr>severity = SeverityError, attribute = Some ''server_url'',
      summary = ''Unknown NetBox Server URL'', detail = unknown_server_url_detail\<rparr>"

definition unknown_api_token :: Diagnostic where
  "unknown_api_token =
     \<lparr>severity = SeverityError, attribute = Some ''api_token'',
      summary = ''Unknown NetBox API Token'', detail = unknown_api_token_detail\<rparr>"

definition unknown_strip :: Diagnostic where
  "unknown_strip =
     \<lparr>severity = SeverityError, attribute = Some ''strip_trailing_slashes_from_url'',
      summary = ''wip'', detail = ''wip''\<rparr>"

definition missing_server_url :: Diagnostic where
  "missing_server_url =
     \<lparr>severity = SeverityError, attribute = Some ''server_url'',
      summary = ''Missing NetBox Server URL'', detail = missing_server_url_detail\<rparr>"

definition missing_api_token :: Diagnostic where
  "missing_api_token =
     \<lparr>severity = SeverityError, attribute = Some ''api_token'',
      summary = ''Missing NetBox API Token'', detail = missing_api_token_detail\<rparr>"

definition stripped_warning :: Diagnostic where
  "stripped_warning =
     \<lparr>severity = SeverityWarning, attribute = Some ''strip_trailing_slashes_from_url'',
      summary = ''Stripped trailing slashes from the `server_url` parameter'',
      detail = stripped_detail\<rparr>"

section \<open>The loop that strips trailing slashes\<close>

function strip_loop :: "string \<Rightarrow> bool \<Rightarrow> string \<times> bool" where
  "strip_loop serverUrl trimmed =
     (if HasSuffix serverUrl ''/''
      then strip_loop (TrimRight serverUrl ''/'') True
      else (serverUrl, trimmed))"
  by pat_completeness auto
termination
proof (relation "measure (\<lambda>(s, t). length s)")
  show "wf (measure (\<lambda>(s, t). length s))" by simp
next
  fix serverUrl :: string and trimmed :: bool
  assume h: "HasSuffix serverUrl ''/''"
  then have "serverUrl \<noteq> []" by (auto simp: HasSuffix_def)
  then obtain ys y where s: "serverUrl = ys @ [y]" by (metis rev_exhaust)
  with h have y: "y = CHR ''/''" by (simp add: HasSuffix_def)
  have "length (dropWhile (\<lambda>c. c \<in> set ''/'') (rev ys)) \<le> length ys"
    by (metis length_dropWhile_le length_rev)
  with s y have "length (TrimRight serverUrl ''/'') < length serverUrl"
    by (simp add: TrimRight_def)
  then show "((TrimRight serverUrl ''/'', True), (serverUrl, trimmed))
      \<in> measure (\<lambda>(s, t). length s)" by simp
qed

section \<open>The client that Configure builds\<close>

text \<open>
  The URL parser \<^verbatim>\<open>urlx.Parse\<close>, the constructor \<^verbatim>\<open>httptransport.TLSTransport\<close> and the
  constant \<^verbatim>\<open>netboxclient.DefaultBasePath\<close> belong to other modules and are parameters of
  the model. The parser returns a nil URL together with an error (\<^const>\<open>None\<close>) or a
  URL and no error; the constructor returns a nil round tripper together with an error
  (\<^const>\<open>None\<close>) or a round tripper.
\<close>

record URL =
  Scheme :: string
  Host :: string
  Path :: string

record TLSClientOptions =
  InsecureSkipVerify :: bool

record 't externals =
  urlx_Parse :: "string \<Rightarrow> URL option"
  TLSTransport :: "TLSClientOptions \<Rightarrow> 't option"
  DefaultBasePath :: string

record 't http_Client =
  Transport :: "'t option"
  Timeout :: nat

record APIKeyAuth =
  auth_name :: string
  auth_in :: string
  auth_value :: string

datatype Logger = StandardLogger

text \<open>
  The runtime records the arguments of \<^verbatim>\<open>httptransport.NewWithClient\<close> and the two fields
  that \<^verbatim>\<open>Configure\<close> sets afterwards. The client of \<^verbatim>\<open>netboxclient.New\<close> wraps it.
\<close>

record 't Runtime =
  rt_host :: string
  rt_basePath :: string
  rt_schemes :: "string list"
  rt_client :: "'t http_Client"
  DefaultAuthentication :: "APIKeyAuth option"
  rt_logger :: "Logger option"

definition NewWithClient ::
  "string \<Rightarrow> string \<Rightarrow> string list \<Rightarrow> 't http_Client \<Rightarrow> 't Runtime" where
  "NewWithClient host basePath schemes client =
     \<lparr>rt_host = host, rt_basePath = basePath, rt_schemes = schemes, rt_client = client,
      DefaultAuthentication = None, rt_logger = None\<rparr>"

record 't ConfigureResponse =
  Diagnostics :: "Diagnostic list"
  DataSourceData :: "'t Runtime option"
  ResourceData :: "'t Runtime option"

text \<open>A call of \<^verbatim>\<open>Configure\<close> returns, or panics on a nil pointer.\<close>

datatype 'a outcome = Panic | Done 'a

section \<open>Configure\<close>

text \<open>
  The values that the first part of \<^verbatim>\<open>Configure\<close> (up to the stripping of trailing
  slashes) hands to the second part, which builds the client: the local variables
  \<^verbatim>\<open>serverUrl\<close>, \<^verbatim>\<open>apiToken\<close> and \<^verbatim>\<open>stripTrailingSlashesFromUrl\<close>.
\<close>

record ResolvedConfig =
  serverUrl :: string
  apiToken :: string
  stripTrailingSlashesFromUrl :: bool

text \<open>The three checks for unknown values.\<close>

definition check_unknown :: "NetboxModel \<Rightarrow> Diagnostic list \<Rightarrow> Diagnostic list" where
  "check_unknown config diagnostics =
     (let diagnostics =
            (if IsUnknown (ServerUrl config)
             then AddAttributeError ''server_url'' ''Unknown NetBox Server URL''
                    unknown_server_url_detail diagnostics
             else diagnostics);
          diagnostics =
            (if IsUnknown (ApiToken config)
             then AddAttributeError ''api_token'' ''Unknown NetBox API Token''
                    unknown_api_token_detail diagnostics
             else diagnostics);
          diagnostics =
            (if IsUnknown (StripTrailingSlashesFromUrl config)
             then AddAttributeError ''strip_trailing_slashes_from_url'' ''wip'' ''wip''
                    diagnostics
             else diagnostics)
      in diagnostics)"

text \<open>
  The selection of the three values from the configuration and the environment, with
  the two checks for an empty value.
\<close>

definition select_values ::
  "NetboxModel \<Rightarrow> environ \<Rightarrow> Diagnostic list \<Rightarrow> ResolvedConfig \<times> Diagnostic list" where
  "select_values config env diagnostics =
     (let serverUrl = Getenv env ''NETBOX_SERVER_URL'';
          apiToken = Getenv env ''NETBOX_API_TOKEN'';
          serverUrl =
            (if \<not> IsNull (ServerUrl config) then ValueString (ServerUrl config)
             else serverUrl);
          diagnostics =
            (if serverUrl = []
             then AddAttributeError ''server_url'' ''Missing NetBox Server URL''
                    missing_server_url_detail diagnostics
             else diagnostics);
          apiToken =
            (if \<not> IsNull (ApiToken config) then ValueString (ApiToken config)
             else apiToken);
          diagnostics =
            (if apiToken = []
             then AddAttributeError ''api_token'' ''Missing NetBox API Token''
                    missing_api_token_detail diagnostics
             else diagnostics);
          stripTrailingSlashesFromUrlEnv = Getenv env ''NETBOX_STRIP_TRAILING_SLASHES_FROM_URL'';
          stripTrailingSlashesFromUrl = True;
          stripTrailingSlashesFromUrl =
            (if stripTrailingSlashesFromUrlEnv = ''false'' then False
             else stripTrailingSlashesFromUrl);
          stripTrailingSlashesFromUrl =
            (if \<not> IsNull (StripTrailingSlashesFromUrl config)
             then ValueBool (StripTrailingSlashesFromUrl config)
             else stripTrailingSlashesFromUrl)
      in (\<lparr>serverUrl = serverUrl, apiToken = apiToken,
           stripTrailingSlashesFromUrl = stripTrailingSlashesFromUrl\<rparr>, diagnostics))"

text \<open>The stripping of trailing slashes, with its warning.\<close>

definition strip_slashes ::
  "ResolvedConfig \<Rightarrow> Diagnostic list \<Rightarrow> ResolvedConfig \<times> Diagnostic list" where
  "strip_slashes rc diagnostics =
     (if stripTrailingSlashesFromUrl rc
      then (case strip_loop (serverUrl rc) False of
              (url, trimmed) \<Rightarrow>
                (rc\<lparr>serverUrl := url\<rparr>,
                 if trimmed
                 then AddAttributeWarning ''strip_trailing_slashes_from_url''
                        ''Stripped trailing slashes from the `server_url` parameter''
                        stripped_detail diagnostics
                 else diagnostics))
      else (rc, diagnostics))"

text \<open>
  The first part of \<^verbatim>\<open>Configure\<close>: \<^const>\<open>Inl\<close> is one of its three early returns, with the
  diagnostics of the response; \<^const>\<open>Inr\<close> carries on to the construction of the client.
  The argument \<open>diags\<close> is what \<^verbatim>\<open>req.Config.Get\<close> returned while decoding the
  configuration into \<open>config\<close>; the response starts with no diagnostics.
\<close>

definition resolve ::
  "Diagnostic list \<Rightarrow> NetboxModel \<Rightarrow> environ \<Rightarrow>
     Diagnostic list + ResolvedConfig \<times> Diagnostic list" where
  "resolve diags config env =
     (let diagnostics = Append [] diags in
      if HasError diagnostics then Inl diagnostics
      else
        let diagnostics = check_unknown config diagnostics in
        if HasError diagnostics then Inl diagnostics
        else
          case select_values config env diagnostics of
            (rc, diagnostics) \<Rightarrow>
              if HasError diagnostics then Inl diagnostics
              else Inr (strip_slashes rc diagnostics))"

text \<open>
  The second part of \<^verbatim>\<open>Configure\<close>. The values of the three calls of \<^verbatim>\<open>fmt.Errorf\<close> are
  discarded, so none of them changes the response or leaves the function. After a
  failed parse \<^verbatim>\<open>parsedURL\<close> is nil, and reading \<^verbatim>\<open>parsedURL.Scheme\<close> panics.
\<close>

definition bootstrap ::
  "'t externals \<Rightarrow> ResolvedConfig \<Rightarrow> Diagnostic list \<Rightarrow> 't ConfigureResponse outcome" where
  "bootstrap ext rc diagnostics =
     (case urlx_Parse ext (serverUrl rc) of
        None \<Rightarrow> Panic
      | Some parsedURL \<Rightarrow>
          let desiredRuntimeClientSchemes = [Scheme parsedURL];
              clientOpts = \<lparr>InsecureSkipVerify = True\<rparr>;
              trans = TLSTransport ext clientOpts;
              httpClient = \<lparr>Transport = trans, Timeout = 10\<rparr>;
              transport =
                NewWithClient (Host parsedURL) (Path parsedURL @ DefaultBasePath ext)
                  desiredRuntimeClientSchemes httpClient;
              transport =
                transport\<lparr>DefaultAuthentication :=
                  Some \<lparr>auth_name = ''Authorization'', auth_in = ''header'',
                        auth_value = ''Token '' @ apiToken rc\<rparr>\<rparr>;
              transport = transport\<lparr>rt_logger := Some StandardLogger\<rparr>;
              client = transport
          in Done \<lparr>Diagnostics = diagnostics, DataSourceData = Some client,
                    ResourceData = Some client\<rparr>)"

definition Configure ::
  "'t externals \<Rightarrow> Diagnostic list \<Rightarrow> NetboxModel \<Rightarrow> environ \<Rightarrow>
     't ConfigureResponse outcome" where
  "Configure ext diags config env =
     (case resolve diags config env of
        Inl diagnostics \<Rightarrow>
          Done \<lparr>Diagnostics = diagnostics, DataSourceData = None, ResourceData = None\<rparr>
      | Inr (rc, diagnostics) \<Rightarrow> bootstrap ext rc diagnostics)"

text \<open>
  The values that the selection yields for a configuration and an environment, and
  whether some attribute of the configuration is unknown.
\<close>

definition selected :: "NetboxModel \<Rightarrow> environ \<Rightarrow> ResolvedConfig" where
  "selected config env = fst (select_values config env [])"

definition any_unknown :: "NetboxModel \<Rightarrow> bool" where
  "any_unknown config \<longleftrightarrow>
     IsUnknown (ServerUrl config) \<or> IsUnknown (ApiToken config) \<or>
     IsUnknown (StripTrailingSlashesFromUrl config)"

text \<open>
  An instance of the external functions for the concrete examples below. Its parser
  accepts the one URL that the examples parse and rejects every other input, among
  them the text \<^verbatim>\<open>not a url\<close> and the empty string; its constructor of round trippers
  returns the options it was given.
\<close>

definition example_Parse :: "string \<Rightarrow> URL option" where
  "example_Parse s =
     (if s = ''https://host'' then Some \<lparr>Scheme = ''https'', Host = ''host'', Path = []\<rparr>
      else None)"

definition example_externals :: "TLSClientOptions externals" where
  "example_externals =
     \<lparr>urlx_Parse = example_Parse, TLSTransport = Some, DefaultBasePath = ''/api''\<rparr>"

section \<open>Properties of the diagnostics and of the loop\<close>

lemma set_Append1: "set (Append1 ds d) = insert d (set ds)"
  by (auto simp: Append1_def Contains_def)

lemma set_Append: "set (Append ds new) = set ds \<union> set new"
  unfolding Append_def by (induction new arbitrary: ds) (auto simp: set_Append1)

lemma HasError_set: "HasError ds \<longleftrightarrow> (\<exists>d \<in> set ds. severity d = SeverityError)"
  by (simp add: HasError_def list_ex_iff)

lemma HasError_Nil: "\<not> HasError []"
  by (simp add: HasError_def)

lemma HasError_Append_Nil: "HasError (Append [] ds) \<longleftrightarrow> HasError ds"
  by (simp add: HasError_set set_Append)

lemma Append_Nil_Nil: "Append [] [] = []"
  by (simp add: Append_def)

lemma Append1_Nil: "Append1 [] d = [d]"
  by (simp add: Append1_def Contains_def)

lemma add_unknown_server_url:
  "AddAttributeError ''server_url'' ''Unknown NetBox Server URL'' unknown_server_url_detail ds
     = Append1 ds unknown_server_url"
  by (simp add: AddAttributeError_def unknown_server_url_def)

lemma add_unknown_api_token:
  "AddAttributeError ''api_token'' ''Unknown NetBox API Token'' unknown_api_token_detail ds
     = Append1 ds unknown_api_token"
  by (simp add: AddAttributeError_def unknown_api_token_def)

lemma add_unknown_strip:
  "AddAttributeError ''strip_trailing_slashes_from_url'' ''wip'' ''wip'' ds
     = Append1 ds unknown_strip"
  by (simp add: AddAttributeError_def unknown_strip_def)

lemma add_missing_server_url:
  "AddAttributeError ''server_url'' ''Missing NetBox Server URL'' missing_server_url_detail ds
     = Append1 ds missing_server_url"
  by (simp add: AddAttributeError_def missing_server_url_def)

lemma add_missing_api_token:
  "AddAttributeError ''api_token'' ''Missing NetBox API Token'' missing_api_token_detail ds
     = Append1 ds missing_api_token"
  by (simp add: AddAttributeError_def missing_api_token_def)

lemma add_stripped_warning:
  "AddAttributeWarning ''strip_trailing_slashes_from_url''
     ''Stripped trailing slashes from the `server_url` parameter'' stripped_detail ds
     = Append1 ds stripped_warning"
  by (simp add: AddAttributeWarning_def stripped_warning_def)

lemmas add_diag = add_unknown_server_url add_unknown_api_token add_unknown_strip
  add_missing_server_url add_missing_api_token add_stripped_warning

lemma severity_diags [simp]:
  "severity unknown_server_url = SeverityError"
  "severity unknown_api_token = SeverityError"
  "severity unknown_strip = SeverityError"
  "severity missing_server_url = SeverityError"
  "severity missing_api_token = SeverityError"
  "severity stripped_warning = SeverityWarning"
  by (simp_all add: unknown_server_url_def unknown_api_token_def unknown_strip_def
      missing_server_url_def missing_api_token_def stripped_warning_def)

lemma diags_distinct:
  "distinct [unknown_server_url, unknown_api_token, unknown_strip, missing_server_url,
     missing_api_token, stripped_warning]"
  by (simp add: unknown_server_url_def unknown_api_token_def unknown_strip_def
      missing_server_url_def missing_api_token_def stripped_warning_def)

lemma diags_neq:
  "unknown_server_url \<noteq> unknown_api_token"
  "unknown_server_url \<noteq> unknown_strip"
  "unknown_server_url \<noteq> missing_server_url"
  "unknown_server_url \<noteq> missing_api_token"
  "unknown_server_url \<noteq> stripped_warning"
  "unknown_api_token \<noteq> unknown_server_url"
  "unknown_api_token \<noteq> unknown_strip"
  "unknown_api_token \<noteq> missing_server_url"
  "unknown_api_token \<noteq> missing_api_token"
  "unknown_api_token \<noteq> stripped_warning"
  "unknown_strip \<noteq> unknown_server_url"
  "unknown_strip \<noteq> unknown_api_token"
  "unknown_strip \<noteq> missing_server_url"
  "unknown_strip \<noteq> missing_api_token"
  "unknown_strip \<noteq> stripped_warning"
  "missing_server_url \<noteq> unknown_server_url"
  "missing_server_url \<noteq> unknown_api_token"
  "missing_server_url \<noteq> unknown_strip"
  "missing_server_url \<noteq> missing_api_token"
  "missing_server_url \<noteq> stripped_warning"
  "missing_api_token \<noteq> unknown_server_url"
  "missing_api_token \<noteq> unknown_api_token"
  "missing_api_token \<noteq> unknown_strip"
  "missing_api_token \<noteq> missing_server_url"
  "missing_api_token \<noteq> stripped_warning"
  "stripped_warning \<noteq> unknown_server_url"
  "stripped_warning \<noteq> unknown_api_token"
  "stripped_warning \<noteq> unknown_strip"
  "stripped_warning \<noteq> missing_server_url"
  "stripped_warning \<noteq> missing_api_token"
  using diags_distinct by auto

lemma HasSuffix_slash: "HasSuffix s ''/'' \<longleftrightarrow> s \<noteq> [] \<and> last s = CHR ''/''"
proof (cases s rule: rev_cases)
  case Nil
  then show ?thesis by (simp add: HasSuffix_def)
next
  case (snoc ys y)
  then show ?thesis by (auto simp: HasSuffix_def)
qed

lemma TrimRight_clean: "\<not> HasSuffix (TrimRight s ''/'') ''/''"
proof -
  let ?d = "dropWhile (\<lambda>c. c \<in> set ''/'') (rev s)"
  have "?d \<noteq> [] \<Longrightarrow> hd ?d \<noteq> CHR ''/''"
    using hd_dropWhile [of "\<lambda>c. c \<in> set ''/''" "rev s"] by simp
  then show ?thesis
    by (auto simp: HasSuffix_slash TrimRight_def last_rev)
qed

lemma TrimRight_id: "\<not> HasSuffix s ''/'' \<Longrightarrow> TrimRight s ''/'' = s"
proof (cases s rule: rev_cases)
  case Nil
  then show ?thesis by (simp add: TrimRight_def)
next
  case (snoc ys y)
  assume "\<not> HasSuffix s ''/''"
  with snoc show ?thesis by (simp add: HasSuffix_slash TrimRight_def)
qed

lemma strip_loop_eq:
  "strip_loop s t = (TrimRight s ''/'', t \<or> HasSuffix s ''/'')"
proof (cases "HasSuffix s ''/''")
  case True
  have "strip_loop (TrimRight s ''/'') True = (TrimRight s ''/'', True)"
    using TrimRight_clean [of s] by (subst strip_loop.simps) simp
  with True show ?thesis by (subst strip_loop.simps) simp
next
  case False
  then show ?thesis by (subst strip_loop.simps) (simp add: TrimRight_id)
qed

lemma TrimRight_host: "TrimRight ''https://host///'' ''/'' = ''https://host''"
  by (simp add: TrimRight_def)

lemma HasSuffix_host: "HasSuffix ''https://host///'' ''/''"
  by (simp add: HasSuffix_def)

lemma Getenv_upd_other: "k \<noteq> k' \<Longrightarrow> Getenv (env(k := e)) k' = Getenv env k'"
  by (simp add: Getenv_def)

lemma Getenv_empty: "Getenv Map.empty k = []"
  by (simp add: Getenv_def)

section \<open>The first part of Configure, case by case\<close>

lemma check_unknown_eq:
  "check_unknown c ds =
     Append ds ((if IsUnknown (ServerUrl c) then [unknown_server_url] else []) @
                (if IsUnknown (ApiToken c) then [unknown_api_token] else []) @
                (if IsUnknown (StripTrailingSlashesFromUrl c) then [unknown_strip] else []))"
  by (simp add: check_unknown_def add_diag Append_def)


lemma HasError_check_unknown:
  "HasError (check_unknown c ds) \<longleftrightarrow> HasError ds \<or> any_unknown c"
  by (auto simp: check_unknown_eq HasError_set set_Append any_unknown_def)

lemma check_unknown_known: "\<not> any_unknown c \<Longrightarrow> check_unknown c ds = ds"
  by (simp add: check_unknown_eq any_unknown_def Append_def)

lemma selected_eq:
  "selected c env =
     \<lparr>serverUrl = (if IsNull (ServerUrl c) then Getenv env ''NETBOX_SERVER_URL''
                   else ValueString (ServerUrl c)),
      apiToken = (if IsNull (ApiToken c) then Getenv env ''NETBOX_API_TOKEN''
                  else ValueString (ApiToken c)),
      stripTrailingSlashesFromUrl =
        (if IsNull (StripTrailingSlashesFromUrl c)
         then Getenv env ''NETBOX_STRIP_TRAILING_SLASHES_FROM_URL'' \<noteq> ''false''
         else ValueBool (StripTrailingSlashesFromUrl c))\<rparr>"
  by (simp add: selected_def select_values_def Let_def)

lemma selected_example [simp]:
  "selected \<lparr>ServerUrl = Known u, ApiToken = Known t, StripTrailingSlashesFromUrl = Null\<rparr> Map.empty
     = \<lparr>serverUrl = u, apiToken = t, stripTrailingSlashesFromUrl = True\<rparr>"
  by (simp add: selected_eq Getenv_empty)

lemma selected_not_unknown:
  assumes "serverUrl (selected c env) \<noteq> []" "apiToken (selected c env) \<noteq> []"
    "stripTrailingSlashesFromUrl (selected c env)"
  shows "\<not> any_unknown c"
proof -
  have "\<not> IsUnknown (ServerUrl c)"
    using assms(1) by (cases "ServerUrl c") (simp_all add: selected_eq)
  moreover have "\<not> IsUnknown (ApiToken c)"
    using assms(2) by (cases "ApiToken c") (simp_all add: selected_eq)
  moreover have "\<not> IsUnknown (StripTrailingSlashesFromUrl c)"
    using assms(3) by (cases "StripTrailingSlashesFromUrl c") (simp_all add: selected_eq)
  ultimately show ?thesis by (simp add: any_unknown_def)
qed

lemma select_values_eq:
  "select_values c env ds =
     (selected c env,
      Append ds ((if serverUrl (selected c env) = [] then [missing_server_url] else []) @
                 (if apiToken (selected c env) = [] then [missing_api_token] else [])))"
  by (simp add: selected_def select_values_def Let_def add_diag Append_def)

lemma set_select_values:
  "set (snd (select_values c env ds)) =
     set ds \<union> {d. d = missing_server_url \<and> serverUrl (selected c env) = []}
       \<union> {d. d = missing_api_token \<and> apiToken (selected c env) = []}"
  by (auto simp: select_values_eq set_Append)

lemma HasError_select_values:
  "HasError (snd (select_values c env ds)) \<longleftrightarrow>
     HasError ds \<or> serverUrl (selected c env) = [] \<or> apiToken (selected c env) = []"
  by (auto simp: select_values_eq HasError_set set_Append)

lemma strip_slashes_eq:
  "strip_slashes rc ds =
     (if stripTrailingSlashesFromUrl rc
      then (rc\<lparr>serverUrl := TrimRight (serverUrl rc) ''/''\<rparr>,
            if HasSuffix (serverUrl rc) ''/'' then Append1 ds stripped_warning else ds)
      else (rc, ds))"
  by (simp add: strip_slashes_def strip_loop_eq add_diag del: strip_loop.simps)

lemma resolve_eq:
  "resolve d0 c env =
     (if HasError d0 then Inl (Append [] d0)
      else if any_unknown c then Inl (check_unknown c (Append [] d0))
      else if serverUrl (selected c env) = [] \<or> apiToken (selected c env) = []
      then Inl (snd (select_values c env (Append [] d0)))
      else Inr (strip_slashes (selected c env) (Append [] d0)))"
proof -
  have sv: "select_values c env ds = (selected c env, snd (select_values c env ds))" for ds
    by (simp add: select_values_eq)
  have ok: "serverUrl (selected c env) \<noteq> [] \<Longrightarrow> apiToken (selected c env) \<noteq> [] \<Longrightarrow>
      snd (select_values c env ds) = ds" for ds
    by (simp add: select_values_eq Append_def)
  show ?thesis
    unfolding resolve_def Let_def
    apply (subst sv)
    apply (simp only: prod.case HasError_Append_Nil HasError_check_unknown HasError_select_values)
    apply (auto simp: check_unknown_known ok)
    done
qed

text \<open>
  The result of the first part of \<^verbatim>\<open>Configure\<close> in terms of the configuration and the
  environment alone, when decoding reported no error and no attribute is unknown; and
  the configurations and environments that it does not tell apart.
\<close>

lemma selected_values:
  assumes "ServerUrl c \<noteq> Unknown" "ApiToken c \<noteq> Unknown"
    "StripTrailingSlashesFromUrl c \<noteq> Unknown"
  shows "selected c env =
     \<lparr>serverUrl = (case ServerUrl c of Known v \<Rightarrow> v | _ \<Rightarrow> Getenv env ''NETBOX_SERVER_URL''),
      apiToken = (case ApiToken c of Known v \<Rightarrow> v | _ \<Rightarrow> Getenv env ''NETBOX_API_TOKEN''),
      stripTrailingSlashesFromUrl =
        (case StripTrailingSlashesFromUrl c of Known v \<Rightarrow> v
         | _ \<Rightarrow> Getenv env ''NETBOX_STRIP_TRAILING_SLASHES_FROM_URL'' \<noteq> ''false'')\<rparr>"
    and "\<not> any_unknown c"
  using assms
  by (cases "ServerUrl c"; cases "ApiToken c"; cases "StripTrailingSlashesFromUrl c";
      simp add: selected_eq any_unknown_def)+

lemma resolve_values:
  assumes "\<not> HasError d0"
    and "ServerUrl c \<noteq> Unknown" and "ApiToken c \<noteq> Unknown"
    and "StripTrailingSlashesFromUrl c \<noteq> Unknown"
    and u: "u = (case ServerUrl c of Known v \<Rightarrow> v | _ \<Rightarrow> Getenv env ''NETBOX_SERVER_URL'')"
    and t: "t = (case ApiToken c of Known v \<Rightarrow> v | _ \<Rightarrow> Getenv env ''NETBOX_API_TOKEN'')"
    and b: "b = (case StripTrailingSlashesFromUrl c of Known v \<Rightarrow> v
                 | _ \<Rightarrow> Getenv env ''NETBOX_STRIP_TRAILING_SLASHES_FROM_URL'' \<noteq> ''false'')"
  shows "u \<noteq> [] \<Longrightarrow> t \<noteq> [] \<Longrightarrow>
           resolve d0 c env =
             Inr (\<lparr>serverUrl = (if b then TrimRight u ''/'' else u), apiToken = t,
                    stripTrailingSlashesFromUrl = b\<rparr>,
                  if b \<and> HasSuffix u ''/'' then Append1 (Append [] d0) stripped_warning
                  else Append [] d0)"
    and "u = [] \<Longrightarrow> \<exists>ds. resolve d0 c env = Inl ds \<and> missing_server_url \<in> set ds"
    and "t = [] \<Longrightarrow> \<exists>ds. resolve d0 c env = Inl ds \<and> missing_api_token \<in> set ds"
proof -
  have s: "selected c env = \<lparr>serverUrl = u, apiToken = t, stripTrailingSlashesFromUrl = b\<rparr>"
    using assms(2-4) u t b by (simp add: selected_values(1))
  have n: "\<not> any_unknown c" using assms(2-4) by (rule selected_values(2))
  show "u \<noteq> [] \<Longrightarrow> t \<noteq> [] \<Longrightarrow>
           resolve d0 c env =
             Inr (\<lparr>serverUrl = (if b then TrimRight u ''/'' else u), apiToken = t,
                    stripTrailingSlashesFromUrl = b\<rparr>,
                  if b \<and> HasSuffix u ''/'' then Append1 (Append [] d0) stripped_warning
                  else Append [] d0)"
    using assms(1) n by (simp add: resolve_eq s strip_slashes_eq)
  show "u = [] \<Longrightarrow> \<exists>ds. resolve d0 c env = Inl ds \<and> missing_server_url \<in> set ds"
    using assms(1) n by (simp add: resolve_eq s set_select_values)
  show "t = [] \<Longrightarrow> \<exists>ds. resolve d0 c env = Inl ds \<and> missing_api_token \<in> set ds"
    using assms(1) n by (simp add: resolve_eq s set_select_values)
qed

lemma resolve_same:
  "selected c1 env1 = selected c2 env2 \<Longrightarrow> any_unknown c1 = any_unknown c2 \<Longrightarrow>
     check_unknown c1 = check_unknown c2 \<Longrightarrow> resolve d0 c1 env1 = resolve d0 c2 env2"
  by (simp add: resolve_eq select_values_eq)


lemma resolve_env_irrelevant:
  "resolve d0 (c\<lparr>ServerUrl := Known v\<rparr>) (env(''NETBOX_SERVER_URL'' := e)) =
     resolve d0 (c\<lparr>ServerUrl := Known v\<rparr>) env"
  "resolve d0 (c\<lparr>ApiToken := Known t\<rparr>) (env(''NETBOX_API_TOKEN'' := e)) =
     resolve d0 (c\<lparr>ApiToken := Known t\<rparr>) env"
  "resolve d0 (c\<lparr>StripTrailingSlashesFromUrl := Known b\<rparr>)
       (env(''NETBOX_STRIP_TRAILING_SLASHES_FROM_URL'' := e)) =
     resolve d0 (c\<lparr>StripTrailingSlashesFromUrl := Known b\<rparr>) env"
  by (rule resolve_same; simp add: selected_eq Getenv_upd_other)+

lemma resolve_null_as_env:
  "resolve d0 (c\<lparr>ServerUrl := Null\<rparr>) env =
     resolve d0 (c\<lparr>ServerUrl := Known (Getenv env ''NETBOX_SERVER_URL'')\<rparr>) env"
  "resolve d0 (c\<lparr>ApiToken := Null\<rparr>) env =
     resolve d0 (c\<lparr>ApiToken := Known (Getenv env ''NETBOX_API_TOKEN'')\<rparr>) env"
  "resolve d0 (c\<lparr>StripTrailingSlashesFromUrl := Null\<rparr>) env =
     resolve d0 (c\<lparr>StripTrailingSlashesFromUrl :=
        Known (Getenv env ''NETBOX_STRIP_TRAILING_SLASHES_FROM_URL'' \<noteq> ''false'')\<rparr>) env"
  by (rule resolve_same; simp add: selected_eq any_unknown_def check_unknown_def fun_eq_iff)+

section \<open>The claims\<close>

text \<open>
  Claim C1. The claim: for a server URL that fails to parse, the construction of the
  client returns an error diagnostic and no client, and does not crash. The code
  formats the parse error and discards it, then reads the scheme of the nil URL:
  whenever the parser rejects the server URL, the second part of \<^verbatim>\<open>Configure\<close> ends
  in a panic, with no response and no diagnostic, and so does \<^verbatim>\<open>Configure\<close> whenever
  its first part hands that server URL on.
\<close>

theorem bootstrap_parse_failure_panics:
  assumes "urlx_Parse ext (serverUrl rc) = None"
  shows "bootstrap ext rc diagnostics = Panic \<and>
         (resolve d0 config env = Inr (rc, diagnostics) \<longrightarrow>
            Configure ext d0 config env = Panic)"
  using assms by (simp add: bootstrap_def Configure_def)

text \<open>
  The server URL \<^verbatim>\<open>not a url\<close>, which the parser rejects, with a token in the
  configuration and an empty environment.
\<close>

theorem bootstrap_parse_failure_panics_witness:
  "urlx_Parse example_externals
     (serverUrl \<lparr>serverUrl = ''not a url'', apiToken = ''0123'',
        stripTrailingSlashesFromUrl = True\<rparr>) = None \<and>
   bootstrap example_externals
     \<lparr>serverUrl = ''not a url'', apiToken = ''0123'',
        stripTrailingSlashesFromUrl = True\<rparr> [] = Panic \<and>
   resolve [] \<lparr>ServerUrl = Known ''not a url'', ApiToken = Known ''0123'',
       StripTrailingSlashesFromUrl = Null\<rparr> Map.empty =
     Inr (\<lparr>serverUrl = ''not a url'', apiToken = ''0123'',
            stripTrailingSlashesFromUrl = True\<rparr>, []) \<and>
   Configure example_externals [] \<lparr>ServerUrl = Known ''not a url'', ApiToken = Known ''0123'',
       StripTrailingSlashesFromUrl = Null\<rparr> Map.empty = Panic"
proof -
  let ?rc = "\<lparr>serverUrl = ''not a url'', apiToken = ''0123'',
        stripTrailingSlashesFromUrl = True\<rparr>"
  let ?c = "\<lparr>ServerUrl = Known ''not a url'', ApiToken = Known ''0123'',
       StripTrailingSlashesFromUrl = Null\<rparr>"
  have h: "urlx_Parse example_externals (serverUrl ?rc) = None"
    by (simp add: example_externals_def example_Parse_def)
  have r: "resolve [] ?c Map.empty = Inr (?rc, [])"
    by (simp add: resolve_eq HasError_Nil any_unknown_def Append_Nil_Nil strip_slashes_eq
        TrimRight_def HasSuffix_def)
  show ?thesis
    using h r bootstrap_parse_failure_panics [OF h, of "[]" "[]" ?c Map.empty] by simp
qed




text \<open>
  Claim C3, as the code has it. When no attribute of the configuration is unknown and
  the selected server URL and the selected token are both empty, \<^verbatim>\<open>Configure\<close> returns
  both errors for missing values together: after a decoding without diagnostics they
  are the whole result, in this order, and after a decoding without errors they are
  what is added to its diagnostics.
\<close>

theorem both_missing_reported:
  assumes "\<not> any_unknown c"
    and "serverUrl (selected c env) = []" and "apiToken (selected c env) = []"
  shows "resolve [] c env = Inl [missing_server_url, missing_api_token] \<and>
         (\<not> HasError d0 \<longrightarrow>
           (\<exists>ds. resolve d0 c env = Inl ds \<and>
              set ds = set d0 \<union> {missing_server_url, missing_api_token}))"
proof -
  have ne: "missing_api_token \<noteq> missing_server_url"
    by (rule diags_neq)
  have "resolve [] c env = Inl [missing_server_url, missing_api_token]"
    using assms ne
    by (simp add: resolve_eq HasError_Nil select_values_eq Append_def Append1_def
        Contains_def)
  moreover have "\<not> HasError d0 \<Longrightarrow>
      resolve d0 c env = Inl (snd (select_values c env (Append [] d0)))"
    using assms by (simp add: resolve_eq)
  moreover have "set (snd (select_values c env (Append [] d0))) =
      set d0 \<union> {missing_server_url, missing_api_token}"
    using assms by (simp add: select_values_eq set_Append)
  ultimately show ?thesis by auto
qed

text \<open>
  No server URL and an empty token in the configuration, and an empty environment.
\<close>

theorem both_missing_reported_witness:
  "\<not> any_unknown \<lparr>ServerUrl = Null, ApiToken = Known [], StripTrailingSlashesFromUrl = Null\<rparr> \<and>
   serverUrl (selected \<lparr>ServerUrl = Null, ApiToken = Known [],
       StripTrailingSlashesFromUrl = Null\<rparr> Map.empty) = [] \<and>
   apiToken (selected \<lparr>ServerUrl = Null, ApiToken = Known [],
       StripTrailingSlashesFromUrl = Null\<rparr> Map.empty) = [] \<and>
   resolve [] \<lparr>ServerUrl = Null, ApiToken = Known [], StripTrailingSlashesFromUrl = Null\<rparr>
       Map.empty = Inl [missing_server_url, missing_api_token]"
proof -
  let ?c = "\<lparr>ServerUrl = Null, ApiToken = Known [], StripTrailingSlashesFromUrl = Null\<rparr>"
  have h1: "\<not> any_unknown ?c" by (simp add: any_unknown_def)
  have h2: "serverUrl (selected ?c Map.empty) = []" by (simp add: selected_eq Getenv_empty)
  have h3: "apiToken (selected ?c Map.empty) = []" by (simp add: selected_eq)
  show ?thesis
    using h1 h2 h3 both_missing_reported [OF h1 h2 h3, of "[]"] by simp
qed

text \<open>
  The claim as stated fails when the stripping flag is unknown: with no server URL and
  no token in the configuration and an empty environment, the only diagnostic is the
  one for the unknown flag, and neither error for a missing value is there.
\<close>

theorem both_missing_reported_counterexample:
  "serverUrl (selected \<lparr>ServerUrl = Null, ApiToken = Null,
       StripTrailingSlashesFromUrl = Unknown\<rparr> Map.empty) = [] \<and>
   apiToken (selected \<lparr>ServerUrl = Null, ApiToken = Null,
       StripTrailingSlashesFromUrl = Unknown\<rparr> Map.empty) = [] \<and>
   resolve [] \<lparr>ServerUrl = Null, ApiToken = Null, StripTrailingSlashesFromUrl = Unknown\<rparr>
       Map.empty = Inl [unknown_strip] \<and>
   missing_server_url \<notin> set [unknown_strip] \<and>
   missing_api_token \<notin> set [unknown_strip]"
  by (simp add: selected_eq Getenv_empty resolve_eq HasError_Nil any_unknown_def
      check_unknown_eq Append_def Append1_Nil diags_neq)

text \<open>
  Claim C4. The claim: whenever the first part of \<^verbatim>\<open>Configure\<close> records no error, the
  server URL it hands on is not empty. The check for an empty server URL runs before
  the slashes are stripped: the server URL \<^verbatim>\<open>///\<close> passes the check, is stripped to the
  empty string, and is handed on with a warning and no error.
\<close>

theorem all_slashes_resolves_to_empty_url:
  "resolve [] \<lparr>ServerUrl = Known ''///'', ApiToken = Known ''0123'',
       StripTrailingSlashesFromUrl = Null\<rparr> Map.empty =
     Inr (\<lparr>serverUrl = [], apiToken = ''0123'', stripTrailingSlashesFromUrl = True\<rparr>,
          [stripped_warning]) \<and>
   \<not> HasError [stripped_warning]"
  by (simp add: resolve_eq HasError_Nil any_unknown_def Append_Nil_Nil strip_slashes_eq
      TrimRight_def HasSuffix_def Append1_Nil HasError_def)




text \<open>
  Claim C6. When decoding reported no error and no attribute is unknown, each of the
  three values is the one set in the configuration if the attribute is set, whatever
  the environment variable holds, and otherwise what the environment yields: the
  value of the variable for the server URL and the token, and for the stripping flag
  whether the variable differs from \<^verbatim>\<open>false\<close>. With a server URL and a token that are not
  empty, \<^verbatim>\<open>Configure\<close> hands on exactly these values (the server URL stripped when the
  flag says so); with an empty one it returns the error for the missing value.
  Moreover, for every configuration and every decoding, the result does not depend on
  the environment variable of an attribute that is set, and a null attribute gives the
  result of the same configuration with the attribute set to what the environment
  yields.
\<close>

theorem explicit_value_wins:
  assumes "\<not> HasError d0"
    and "ServerUrl c \<noteq> Unknown" and "ApiToken c \<noteq> Unknown"
    and "StripTrailingSlashesFromUrl c \<noteq> Unknown"
    and "u = (case ServerUrl c of Known v \<Rightarrow> v | _ \<Rightarrow> Getenv env ''NETBOX_SERVER_URL'')"
    and "t = (case ApiToken c of Known v \<Rightarrow> v | _ \<Rightarrow> Getenv env ''NETBOX_API_TOKEN'')"
    and "b = (case StripTrailingSlashesFromUrl c of Known v \<Rightarrow> v
              | _ \<Rightarrow> Getenv env ''NETBOX_STRIP_TRAILING_SLASHES_FROM_URL'' \<noteq> ''false'')"
  shows
    "(u \<noteq> [] \<and> t \<noteq> [] \<longrightarrow>
        resolve d0 c env =
          Inr (\<lparr>serverUrl = (if b then TrimRight u ''/'' else u), apiToken = t,
                 stripTrailingSlashesFromUrl = b\<rparr>,
               if b \<and> HasSuffix u ''/'' then Append1 (Append [] d0) stripped_warning
               else Append [] d0)) \<and>
     (u = [] \<longrightarrow> (\<exists>ds. resolve d0 c env = Inl ds \<and> missing_server_url \<in> set ds)) \<and>
     (t = [] \<longrightarrow> (\<exists>ds. resolve d0 c env = Inl ds \<and> missing_api_token \<in> set ds)) \<and>
     resolve d1 (c1\<lparr>ServerUrl := Known v1\<rparr>) (env1(''NETBOX_SERVER_URL'' := e)) =
       resolve d1 (c1\<lparr>ServerUrl := Known v1\<rparr>) env1 \<and>
     resolve d1 (c1\<lparr>ApiToken := Known t1\<rparr>) (env1(''NETBOX_API_TOKEN'' := e)) =
       resolve d1 (c1\<lparr>ApiToken := Known t1\<rparr>) env1 \<and>
     resolve d1 (c1\<lparr>StripTrailingSlashesFromUrl := Known b1\<rparr>)
         (env1(''NETBOX_STRIP_TRAILING_SLASHES_FROM_URL'' := e)) =
       resolve d1 (c1\<lparr>StripTrailingSlashesFromUrl := Known b1\<rparr>) env1 \<and>
     resolve d1 (c1\<lparr>ServerUrl := Null\<rparr>) env1 =
       resolve d1 (c1\<lparr>ServerUrl := Known (Getenv env1 ''NETBOX_SERVER_URL'')\<rparr>) env1 \<and>
     resolve d1 (c1\<lparr>ApiToken := Null\<rparr>) env1 =
       resolve d1 (c1\<lparr>ApiToken := Known (Getenv env1 ''NETBOX_API_TOKEN'')\<rparr>) env1 \<and>
     resolve d1 (c1\<lparr>StripTrailingSlashesFromUrl := Null\<rparr>) env1 =
       resolve d1 (c1\<lparr>StripTrailingSlashesFromUrl :=
          Known (Getenv env1 ''NETBOX_STRIP_TRAILING_SLASHES_FROM_URL'' \<noteq> ''false'')\<rparr>) env1"
proof -
  note v = resolve_values [OF assms]
  note i = resolve_env_irrelevant
  note n = resolve_null_as_env
  show ?thesis
    by (intro conjI impI) (erule conjE, rule v, assumption+, (rule v i n, assumption?)+)
qed

text \<open>
  All three attributes set, in an environment that holds other values for all three;
  and all three attributes null in the same environment.
\<close>

theorem explicit_value_wins_witness:
  "\<not> HasError [] \<and>
   resolve [] \<lparr>ServerUrl = Known ''https://host'', ApiToken = Known ''0123'',
       StripTrailingSlashesFromUrl = Known False\<rparr>
       [''NETBOX_SERVER_URL'' \<mapsto> ''https://other'', ''NETBOX_API_TOKEN'' \<mapsto> ''9999'',
        ''NETBOX_STRIP_TRAILING_SLASHES_FROM_URL'' \<mapsto> ''true''] =
     Inr (\<lparr>serverUrl = ''https://host'', apiToken = ''0123'',
            stripTrailingSlashesFromUrl = False\<rparr>, []) \<and>
   resolve [] \<lparr>ServerUrl = Null, ApiToken = Null, StripTrailingSlashesFromUrl = Null\<rparr>
       [''NETBOX_SERVER_URL'' \<mapsto> ''https://other'', ''NETBOX_API_TOKEN'' \<mapsto> ''9999'',
        ''NETBOX_STRIP_TRAILING_SLASHES_FROM_URL'' \<mapsto> ''true''] =
     Inr (\<lparr>serverUrl = ''https://other'', apiToken = ''9999'',
            stripTrailingSlashesFromUrl = True\<rparr>, [])"
proof -
  let ?env = "[''NETBOX_SERVER_URL'' \<mapsto> ''https://other'', ''NETBOX_API_TOKEN'' \<mapsto> ''9999'',
        ''NETBOX_STRIP_TRAILING_SLASHES_FROM_URL'' \<mapsto> ''true'']"
  let ?c = "\<lparr>ServerUrl = Known ''https://host'', ApiToken = Known ''0123'',
       StripTrailingSlashesFromUrl = Known False\<rparr>"
  let ?n = "\<lparr>ServerUrl = Null, ApiToken = Null, StripTrailingSlashesFromUrl = Null\<rparr>"
  have h: "\<not> HasError []" by (rule HasError_Nil)
  have c: "ServerUrl ?c \<noteq> Unknown" "ApiToken ?c \<noteq> Unknown"
    "StripTrailingSlashesFromUrl ?c \<noteq> Unknown"
    "''https://host'' = (case ServerUrl ?c of Known v \<Rightarrow> v | _ \<Rightarrow> Getenv ?env ''NETBOX_SERVER_URL'')"
    "''0123'' = (case ApiToken ?c of Known v \<Rightarrow> v | _ \<Rightarrow> Getenv ?env ''NETBOX_API_TOKEN'')"
    "False = (case StripTrailingSlashesFromUrl ?c of Known v \<Rightarrow> v
              | _ \<Rightarrow> Getenv ?env ''NETBOX_STRIP_TRAILING_SLASHES_FROM_URL'' \<noteq> ''false'')"
    by simp_all
  have n: "ServerUrl ?n \<noteq> Unknown" "ApiToken ?n \<noteq> Unknown"
    "StripTrailingSlashesFromUrl ?n \<noteq> Unknown"
    "''https://other'' = (case ServerUrl ?n of Known v \<Rightarrow> v | _ \<Rightarrow> Getenv ?env ''NETBOX_SERVER_URL'')"
    "''9999'' = (case ApiToken ?n of Known v \<Rightarrow> v | _ \<Rightarrow> Getenv ?env ''NETBOX_API_TOKEN'')"
    "True = (case StripTrailingSlashesFromUrl ?n of Known v \<Rightarrow> v
              | _ \<Rightarrow> Getenv ?env ''NETBOX_STRIP_TRAILING_SLASHES_FROM_URL'' \<noteq> ''false'')"
    by (simp_all add: Getenv_def)
  have 1: "resolve [] ?c ?env = Inr (\<lparr>serverUrl = ''https://host'', apiToken = ''0123'',
            stripTrailingSlashesFromUrl = False\<rparr>, [])"
    using explicit_value_wins [OF h c] by (simp add: Append_Nil_Nil)
  have 2: "resolve [] ?n ?env = Inr (\<lparr>serverUrl = ''https://other'', apiToken = ''9999'',
            stripTrailingSlashesFromUrl = True\<rparr>, [])"
    using explicit_value_wins [OF h n]
    by (simp add: Append_Nil_Nil TrimRight_def HasSuffix_def)
  show ?thesis using h 1 2 by simp
qed

text \<open>
  Claim C7. When the selected server URL is \<^verbatim>\<open>https://host///\<close>, the selected token is not
  empty and stripping is selected, the first part of \<^verbatim>\<open>Configure\<close> hands on the server
  URL \<^verbatim>\<open>https://host\<close>, all three slashes removed, and its diagnostics are exactly one
  warning, the one about the stripped slashes (after a decoding without diagnostics).
\<close>

theorem strip_loop_exhaustive:
  assumes "serverUrl (selected c env) = ''https://host///''"
    and "apiToken (selected c env) \<noteq> []"
    and "stripTrailingSlashesFromUrl (selected c env)"
  shows "resolve [] c env =
     Inr ((selected c env)\<lparr>serverUrl := ''https://host''\<rparr>, [stripped_warning])"
proof -
  have "\<not> any_unknown c"
    using assms by (intro selected_not_unknown) simp_all
  then show ?thesis
    using assms
    by (simp add: resolve_eq HasError_Nil Append_Nil_Nil strip_slashes_eq TrimRight_host
        HasSuffix_host Append1_Nil)
qed

text \<open>
  The server URL and a token in the configuration, the flag left to its default.
\<close>

theorem strip_loop_exhaustive_witness:
  "serverUrl (selected \<lparr>ServerUrl = Known ''https://host///'', ApiToken = Known ''0123'',
       StripTrailingSlashesFromUrl = Null\<rparr> Map.empty) = ''https://host///'' \<and>
   apiToken (selected \<lparr>ServerUrl = Known ''https://host///'', ApiToken = Known ''0123'',
       StripTrailingSlashesFromUrl = Null\<rparr> Map.empty) \<noteq> [] \<and>
   stripTrailingSlashesFromUrl (selected \<lparr>ServerUrl = Known ''https://host///'',
       ApiToken = Known ''0123'', StripTrailingSlashesFromUrl = Null\<rparr> Map.empty) \<and>
   resolve [] \<lparr>ServerUrl = Known ''https://host///'', ApiToken = Known ''0123'',
       StripTrailingSlashesFromUrl = Null\<rparr> Map.empty =
     Inr (\<lparr>serverUrl = ''https://host'', apiToken = ''0123'',
            stripTrailingSlashesFromUrl = True\<rparr>, [stripped_warning])"
proof -
  let ?c = "\<lparr>ServerUrl = Known ''https://host///'', ApiToken = Known ''0123'',
       StripTrailingSlashesFromUrl = Null\<rparr>"
  have h1: "serverUrl (selected ?c Map.empty) = ''https://host///''" by simp
  have h2: "apiToken (selected ?c Map.empty) \<noteq> []" by simp
  have h3: "stripTrailingSlashesFromUrl (selected ?c Map.empty)" by simp
  show ?thesis
    using h1 h2 h3 strip_loop_exhaustive [OF h1 h2 h3] by simp
qed

text \<open>
  Claim C8. With stripping selected, a server URL that does not end in a slash is left
  as it is and no warning is added; stripping what the stripping returned changes
  nothing and adds no warning; and \<^verbatim>\<open>Configure\<close>, when it records no error and the
  selected server URL does not end in a slash, hands on the selected values and adds
  nothing to the diagnostics of the decoding.
\<close>

theorem normalization_idempotent:
  "(stripTrailingSlashesFromUrl rc \<and> \<not> HasSuffix (serverUrl rc) ''/'' \<longrightarrow>
      strip_slashes rc ds = (rc, ds)) \<and>
   strip_slashes (fst (strip_slashes rc ds)) ds' = (fst (strip_slashes rc ds), ds') \<and>
   (\<not> HasError d0 \<and> \<not> any_unknown c \<and> serverUrl (selected c env) \<noteq> [] \<and>
    apiToken (selected c env) \<noteq> [] \<and> \<not> HasSuffix (serverUrl (selected c env)) ''/'' \<longrightarrow>
      resolve d0 c env = Inr (selected c env, Append [] d0))"
proof -
  have a: "strip_slashes rc ds = (rc, ds)"
    if "\<not> HasSuffix (serverUrl rc) ''/''" for rc ds
    using that by (simp add: strip_slashes_eq TrimRight_id)
  have b: "strip_slashes (fst (strip_slashes rc ds)) ds' = (fst (strip_slashes rc ds), ds')"
  proof (cases "stripTrailingSlashesFromUrl rc")
    case True
    then have "\<not> HasSuffix (serverUrl (fst (strip_slashes rc ds))) ''/''"
      by (simp add: strip_slashes_eq TrimRight_clean)
    then show ?thesis by (rule a)
  next
    case False
    then show ?thesis by (simp add: strip_slashes_eq)
  qed
  have c: "resolve d0 c env = Inr (selected c env, Append [] d0)"
    if "\<not> HasError d0" "\<not> any_unknown c" "serverUrl (selected c env) \<noteq> []"
      "apiToken (selected c env) \<noteq> []" "\<not> HasSuffix (serverUrl (selected c env)) ''/''"
    using that by (simp add: resolve_eq a)
  show ?thesis using a b c by blast
qed

text \<open>
  The server URL \<^verbatim>\<open>https://host\<close> with stripping selected.
\<close>

theorem normalization_idempotent_witness:
  "stripTrailingSlashesFromUrl \<lparr>serverUrl = ''https://host'', apiToken = ''0123'',
       stripTrailingSlashesFromUrl = True\<rparr> \<and>
   \<not> HasSuffix (serverUrl \<lparr>serverUrl = ''https://host'', apiToken = ''0123'',
       stripTrailingSlashesFromUrl = True\<rparr>) ''/'' \<and>
   strip_slashes \<lparr>serverUrl = ''https://host'', apiToken = ''0123'',
       stripTrailingSlashesFromUrl = True\<rparr> [] =
     (\<lparr>serverUrl = ''https://host'', apiToken = ''0123'',
        stripTrailingSlashesFromUrl = True\<rparr>, []) \<and>
   \<not> HasError [] \<and>
   \<not> any_unknown \<lparr>ServerUrl = Known ''https://host'', ApiToken = Known ''0123'',
       StripTrailingSlashesFromUrl = Null\<rparr> \<and>
   resolve [] \<lparr>ServerUrl = Known ''https://host'', ApiToken = Known ''0123'',
       StripTrailingSlashesFromUrl = Null\<rparr> Map.empty =
     Inr (\<lparr>serverUrl = ''https://host'', apiToken = ''0123'',
            stripTrailingSlashesFromUrl = True\<rparr>, [])"
proof -
  let ?rc = "\<lparr>serverUrl = ''https://host'', apiToken = ''0123'',
       stripTrailingSlashesFromUrl = True\<rparr>"
  let ?c = "\<lparr>ServerUrl = Known ''https://host'', ApiToken = Known ''0123'',
       StripTrailingSlashesFromUrl = Null\<rparr>"
  have s: "selected ?c Map.empty = ?rc" by simp
  have h1: "stripTrailingSlashesFromUrl ?rc" by simp
  have h2: "\<not> HasSuffix (serverUrl ?rc) ''/''" by (simp add: HasSuffix_def)
  have h3: "\<not> HasError []" by (rule HasError_Nil)
  have h4: "\<not> any_unknown ?c" by (simp add: any_unknown_def)
  from normalization_idempotent [of ?rc "[]" "[]" "[]" ?c Map.empty] s h1 h2 h3 h4
  show ?thesis by (simp add: Append_Nil_Nil)
qed




text \<open>
  Claim C10. Whenever the server URL parses, the client is built, and the transport of
  its HTTP client is what the constructor returns for options with
  \<^verbatim>\<open>InsecureSkipVerify\<close> set; and in every response of \<^verbatim>\<open>Configure\<close> that carries a client,
  whatever the configuration and the environment, the transport is that one.
\<close>

theorem tls_verification_always_disabled:
  "(urlx_Parse ext (serverUrl rc) = Some u \<longrightarrow>
      (\<exists>resp client. bootstrap ext rc ds = Done resp \<and> ResourceData resp = Some client \<and>
         DataSourceData resp = Some client \<and>
         Transport (rt_client client) = TLSTransport ext \<lparr>InsecureSkipVerify = True\<rparr>)) \<and>
   (Configure ext d0 c env = Done resp' \<and> ResourceData resp' = Some client' \<longrightarrow>
      Transport (rt_client client') = TLSTransport ext \<lparr>InsecureSkipVerify = True\<rparr>)"
proof -
  have a: "bootstrap ext rc ds = Done resp \<Longrightarrow> ResourceData resp = Some client \<Longrightarrow>
      Transport (rt_client client) = TLSTransport ext \<lparr>InsecureSkipVerify = True\<rparr>"
    for rc ds resp client
    by (auto simp: bootstrap_def Let_def NewWithClient_def split: option.splits)
  have b: "urlx_Parse ext (serverUrl rc) = Some u \<Longrightarrow>
      \<exists>resp client. bootstrap ext rc ds = Done resp \<and> ResourceData resp = Some client \<and>
         DataSourceData resp = Some client \<and>
         Transport (rt_client client) = TLSTransport ext \<lparr>InsecureSkipVerify = True\<rparr>"
    by (simp add: bootstrap_def Let_def NewWithClient_def)
  have c: "Configure ext d0 c env = Done resp' \<Longrightarrow> ResourceData resp' = Some client' \<Longrightarrow>
      Transport (rt_client client') = TLSTransport ext \<lparr>InsecureSkipVerify = True\<rparr>"
    by (auto simp: Configure_def split: sum.splits prod.splits dest: a)
  show ?thesis using b c by blast
qed

text \<open>
  A server URL with the scheme \<^verbatim>\<open>https\<close>.
\<close>

theorem tls_verification_always_disabled_witness:
  "urlx_Parse example_externals (serverUrl \<lparr>serverUrl = ''https://host'', apiToken = ''0123'',
       stripTrailingSlashesFromUrl = True\<rparr>) =
     Some \<lparr>Scheme = ''https'', Host = ''host'', Path = []\<rparr> \<and>
   (\<exists>resp client. bootstrap example_externals \<lparr>serverUrl = ''https://host'',
        apiToken = ''0123'', stripTrailingSlashesFromUrl = True\<rparr> [] = Done resp \<and>
      ResourceData resp = Some client \<and>
      Transport (rt_client client) = Some \<lparr>InsecureSkipVerify = True\<rparr>)"
proof -
  let ?rc = "\<lparr>serverUrl = ''https://host'', apiToken = ''0123'',
       stripTrailingSlashesFromUrl = True\<rparr>"
  have h: "urlx_Parse example_externals (serverUrl ?rc) =
      Some \<lparr>Scheme = ''https'', Host = ''host'', Path = []\<rparr>"
    by (simp add: example_externals_def example_Parse_def)
  have t: "TLSTransport example_externals \<lparr>InsecureSkipVerify = True\<rparr> =
      Some \<lparr>InsecureSkipVerify = True\<rparr>"
    by (simp add: example_externals_def)
  from tls_verification_always_disabled [of example_externals ?rc _ "[]"] h t
  show ?thesis by fastforce
qed

end
